theory Spec2Isabelle
  imports Complex_Main "HOL-Library.Word" "HOL-Library.Multiset" "HOL-Library.Product_Lexorder"
begin

section \<open>Machine types and memory faults\<close>

text \<open>
  \<^verbatim>\<open>tools/chplvis/DataModel.h\<close> is C++ compiled for an LP64 target: \<^verbatim>\<open>int\<close> is a
  32-bit and \<^verbatim>\<open>long\<close> a 64-bit two's complement integer, read with \<open>sint\<close>.
  A \<^verbatim>\<open>double\<close> is modelled by the real number it denotes; no result below does
  arithmetic on one.
\<close>

type_synonym c_int = "32 word"
type_synonym c_long = "64 word"
type_synonym double = real

text \<open>
  What C++ leaves undefined or answers with an exception is a value of the model:
  reading through a null pointer, reading or writing outside an array, dereferencing
  the past-the-end iterator of a list, overflowing a signed integer,
  and asking \<^verbatim>\<open>new[]\<close> for a negative number of elements.
\<close>

datatype fault =
  NullDeref | OutOfBounds | EndIterator | SignedOverflow | BadArrayNewLength

text \<open>
  A \<^verbatim>\<open>tagData *\<close> is either \<^verbatim>\<open>NULL\<close> or the address of an object. Two pointers are
  the same object exactly when the addresses are equal.
\<close>

datatype tagData_ptr = NULL | Ptr nat

text \<open>
  A pointer to an array (\<^verbatim>\<open>tagData **\<close>, \<^verbatim>\<open>filename *\<close>) is \<open>None\<close> when it is
  \<^verbatim>\<open>NULL\<close> and otherwise the elements it addresses. \<open>array_read a i\<close> is the C++
  expression \<^verbatim>\<open>a[i]\<close>.
\<close>

definition array_read :: "'a list option \<Rightarrow> int \<Rightarrow> fault + 'a" where
  "array_read a i =
     (case a of
        None \<Rightarrow> Inl NullDeref
      | Some xs \<Rightarrow> if 0 \<le> i \<and> i < int (length xs) then Inr (xs ! nat i) else Inl OutOfBounds)"

section \<open>Support structs\<close>

text \<open>\<^verbatim>\<open>struct commData\<close>, lines 44-52; \<open>commData_new\<close> is its constructor.\<close>

record commData =
  numComms :: c_long
  numGets :: c_long
  numPuts :: c_long
  numForks :: c_long
  commSize :: c_long

definition commData_new :: commData where
  "commData_new = \<lparr>numComms = 0, numGets = 0, numPuts = 0, numForks = 0, commSize = 0\<rparr>"

text \<open>
  \<^verbatim>\<open>struct localeData\<close>, lines 68-86. The task map is empty after construction; the
  \<^verbatim>\<open>taskData\<close> values it would hold are not needed by any accessor of the header, so
  the map is kept as the list of its keys.
\<close>

record localeData =
  userCpu :: double
  sysCpu :: double
  Cpu :: double
  refUserCpu :: double
  refSysCpu :: double
  clockTime :: double
  refTime :: double
  maxTaskClock :: double
  numTasks :: c_long
  runConc :: c_long
  maxConc :: c_long
  tasks :: "c_long list"

definition localeData_new :: localeData where
  "localeData_new =
     \<lparr>userCpu = 0, sysCpu = 0, Cpu = 0, refUserCpu = 0, refSysCpu = 0, clockTime = 0,
      refTime = 0, maxTaskClock = 0, numTasks = 0, runConc = 0, maxConc = 0, tasks = []\<rparr>"

text \<open>\<^verbatim>\<open>struct filename\<close>, lines 89-92.\<close>

record filename =
  name :: string
  rel2Home :: bool

section \<open>Events\<close>

text \<open>
  Modelled from the spec: the class \<^verbatim>\<open>Event\<close> of \<^verbatim>\<open>Event.h\<close>, which is not among the
  sources. The spec (section 3) gives every event a locale id, a per-locale sequence
  number, a clock time and a kind with kind-specific fields; \<^verbatim>\<open>clock_time()\<close> is the
  one member the header calls, and it returns a \<^verbatim>\<open>double\<close>.
\<close>

datatype comm_kind = Get | Put | Fork

datatype event_kind =
    Start | Stop | Pause | Tag string | TaskBegin nat | TaskEnd nat | Task nat
  | Comm comm_kind nat nat nat

record Event =
  clock_time :: double
  locale_id :: nat
  seq_no :: nat
  kind :: event_kind

section \<open>Per-tag data\<close>

text \<open>
  \<^verbatim>\<open>new T[n]\<close> with a \<^verbatim>\<open>long\<close> count: a negative count throws
  \<^verbatim>\<open>std::bad_array_new_length\<close>; otherwise the array has \<open>n\<close> elements, each
  initialised as \<open>x\<close>. Memory is taken to be sufficient (\<^verbatim>\<open>std::bad_alloc\<close> is not
  modelled). \<open>array_write a i x\<close> is the assignment \<^verbatim>\<open>a[i] = x\<close>.
\<close>

definition new_array :: "c_long \<Rightarrow> 'a \<Rightarrow> fault + 'a list" where
  "new_array n x = (if sint n < 0 then Inl BadArrayNewLength else Inr (replicate (nat (sint n)) x))"

definition array_write :: "'a list \<Rightarrow> int \<Rightarrow> 'a \<Rightarrow> fault + 'a list" where
  "array_write xs i x =
     (if 0 \<le> i \<and> i < int (length xs) then Inr (xs[nat i := x]) else Inl OutOfBounds)"

text \<open>
  \<^verbatim>\<open>struct DataModel::tagData\<close>, lines 169-205. Three fields carry a prefix because
  \<^verbatim>\<open>DataModel\<close>, \<^verbatim>\<open>localeData\<close> and \<^verbatim>\<open>filename\<close> have members of the same name:
  \<open>td_numLocales\<close>, \<open>td_name\<close> and \<open>td_maxConc\<close>. \<open>comms\<close> is the array of row
  pointers; a row pointer that has not been assigned yet is \<open>None\<close>. The private iterator
  \<^verbatim>\<open>firstTag\<close> is left out: the constructor does not set it and no accessor reads it.
\<close>

record tagData =
  td_numLocales :: c_long
  td_name :: string
  locales :: "localeData list"
  comms :: "commData list option list"
  maxCpu :: double
  maxClock :: double
  maxTasks :: c_long
  td_maxConc :: c_long
  maxComms :: c_long
  maxSize :: c_long

text \<open>
  The loop of the constructor, lines 188-189:
  \<^verbatim>\<open>for (int i = 0; i < numLocales; i++) comms[i] = new commData[numLocales];\<close>
  The counter is an \<^verbatim>\<open>int\<close> compared with a \<^verbatim>\<open>long\<close>; incrementing it past
  \<open>2^31 - 1\<close> is undefined.
\<close>

function comms_loop ::
  "c_long \<Rightarrow> c_int \<Rightarrow> commData list option list \<Rightarrow> fault + commData list option list" where
  "comms_loop n i cs =
     (if sint i < sint n then
        (case new_array n commData_new of
           Inl e \<Rightarrow> Inl e
         | Inr row \<Rightarrow>
             (case array_write cs (sint i) (Some row) of
                Inl e \<Rightarrow> Inl e
              | Inr cs' \<Rightarrow>
                  if sint i = 2147483647 then Inl SignedOverflow else comms_loop n (i + 1) cs'))
      else Inr cs)"
  by pat_completeness auto

termination comms_loop
proof (relation "measure (\<lambda>(n, i, cs). nat (2147483648 - sint i))")
  show "wf (measure (\<lambda>(n :: c_long, i :: c_int, cs :: commData list option list).
              nat (2147483648 - sint i)))"
    by simp
next
  fix n :: c_long and i :: c_int and cs cs' :: "commData list option list"
  assume ne: "sint i \<noteq> 2147483647"
  have bounds: "- 2147483648 \<le> sint i" "sint i < 2147483648"
    using sint_ge [of i] sint_lt [of i] by simp_all
  with ne have "sint (i + 1) = sint i + 1"
    by (simp add: sint_word_add signed_take_bit_int_eq_self)
  with bounds show "((n, i + 1, cs'), (n, i, cs))
      \<in> measure (\<lambda>(n, i, cs). nat (2147483648 - sint i))"
    by simp
qed

declare comms_loop.simps [simp del]

text \<open>The constructor \<^verbatim>\<open>tagData(long numLoc)\<close>, lines 184-190.\<close>

definition tagData_new :: "c_long \<Rightarrow> fault + tagData" where
  "tagData_new numLoc =
     (case new_array numLoc localeData_new of
        Inl e \<Rightarrow> Inl e
      | Inr ls \<Rightarrow>
          (case new_array numLoc None of
             Inl e \<Rightarrow> Inl e
           | Inr cs0 \<Rightarrow>
               (case comms_loop numLoc 0 cs0 of
                  Inl e \<Rightarrow> Inl e
                | Inr cs \<Rightarrow>
                    Inr \<lparr>td_numLocales = numLoc, td_name = '''', locales = ls, comms = cs,
                         maxCpu = 0, maxClock = 0, maxTasks = 0, td_maxConc = 0,
                         maxComms = 0, maxSize = 0\<rparr>)))"

section \<open>The data model\<close>

text \<open>
  \<^verbatim>\<open>class DataModel\<close>, lines 109-288. \<open>tagList\<close> and \<open>utagList\<close> are arrays of pointers
  to \<^verbatim>\<open>tagData\<close> objects. \<open>name2tag\<close> is the \<^verbatim>\<open>std::map\<close> as the list of its entries,
  one per key, so that \<^verbatim>\<open>name2tag.size()\<close> is the length of the list. \<open>theEvents\<close> is
  the \<^verbatim>\<open>std::list\<close> of the events the model owns and \<open>curEvent\<close> a position in it.
  The members \<^verbatim>\<open>mainTask\<close>, \<^verbatim>\<open>strDB\<close>, \<^verbatim>\<open>funcTbl\<close> and \<^verbatim>\<open>funcTblSize\<close> are read by no
  function of the header and are left out.
\<close>

datatype Tl_Kind = Tl_Tag | Tl_Begin | Tl_End

record DataModel =
  taskTimeline :: "(Tl_Kind \<times> c_long) list list option"
  mainTID :: c_int
  fileTbl :: "filename list option"
  fileTblSize :: c_int
  tagNames :: "string option list"
  numLocales :: c_int
  numTags :: c_int
  tagList :: "tagData_ptr list option"
  uniqueTags :: bool
  name2tag :: "(string \<times> c_int) list"
  utagList :: "tagData_ptr list option"
  theEvents :: "Event list"
  curEvent :: nat

text \<open>\<^verbatim>\<open>static const int TagALL = -2, TagStart = -1;\<close> (line 165)\<close>

definition TagALL :: c_int where
  "TagALL = - 2"

definition TagStart :: c_int where
  "TagStart = - 1"

text \<open>
  The constructor \<^verbatim>\<open>DataModel()\<close>, lines 250-259. It is applied to the storage of the
  new object: \<^verbatim>\<open>theEvents\<close> and \<^verbatim>\<open>name2tag\<close> are default-constructed empty and
  \<^verbatim>\<open>tagNames\<close> is resized to 64 null pointers, while \<^verbatim>\<open>mainTID\<close>, \<^verbatim>\<open>fileTbl\<close> and
  \<^verbatim>\<open>fileTblSize\<close> are not assigned and keep whatever the storage held.
\<close>

definition DataModel_new :: "DataModel \<Rightarrow> DataModel" where
  "DataModel_new storage =
     storage\<lparr>theEvents := [], name2tag := [],
             numLocales := - 1, numTags := 0, tagList := None, taskTimeline := None,
             curEvent := 0, uniqueTags := True, utagList := None,
             tagNames := replicate 64 None\<rparr>"


definition NumTags :: "DataModel \<Rightarrow> c_int" where
  "NumTags dm = numTags dm"


definition NumLocales :: "DataModel \<Rightarrow> c_int" where
  "NumLocales dm = numLocales dm"

text \<open>
  \<^verbatim>\<open>getTagData\<close>, lines 216-220. The index \<^verbatim>\<open>tagno-TagALL\<close> is computed in \<^verbatim>\<open>int\<close>;
  a difference above \<open>2^31 - 1\<close> is a signed overflow.
\<close>

definition getTagData :: "DataModel \<Rightarrow> c_int \<Rightarrow> fault + tagData_ptr" where
  "getTagData dm tagno =
     (if sint tagno < sint TagALL \<or> sint (numTags dm) \<le> sint tagno then Inr NULL
      else if 2147483647 < sint tagno - sint TagALL then Inl SignedOverflow
      else array_read (tagList dm) (sint tagno - sint TagALL))"

text \<open>\<^verbatim>\<open>getUTagData\<close>, lines 222-230, with the cast \<^verbatim>\<open>(int)name2tag.size()\<close>.\<close>

definition getUTagData :: "DataModel \<Rightarrow> c_int \<Rightarrow> fault + tagData_ptr" where
  "getUTagData dm tagno =
     (if tagno = TagALL then array_read (tagList dm) 0
      else if tagno = TagStart then array_read (tagList dm) 1
      else if uniqueTags dm
              \<or> sint (word_of_nat (length (name2tag dm)) :: c_int) \<le> sint tagno
              \<or> sint tagno < 0
        then Inr NULL
      else array_read (utagList dm) (sint tagno))"

text \<open>
  \<^verbatim>\<open>start_clock\<close>, lines 234-236: it dereferences \<^verbatim>\<open>theEvents.begin()\<close>, which is the
  past-the-end iterator when the list is empty.
\<close>

definition start_clock :: "DataModel \<Rightarrow> fault + double" where
  "start_clock dm =
     (case theEvents dm of [] \<Rightarrow> Inl EndIterator | e # _ \<Rightarrow> Inr (clock_time e))"

text \<open>
  \<^verbatim>\<open>fileName\<close> and \<^verbatim>\<open>fileIsRel2Home\<close>, lines 238-246. The argument is a \<^verbatim>\<open>long\<close>;
  \<^verbatim>\<open>fileTblSize\<close> is promoted to \<^verbatim>\<open>long\<close> for the comparison.
\<close>

definition fileName :: "DataModel \<Rightarrow> c_long \<Rightarrow> fault + string" where
  "fileName dm fileNo =
     (if 0 \<le> sint fileNo \<and> sint fileNo < sint (fileTblSize dm)
      then (case array_read (fileTbl dm) (sint fileNo) of
              Inl e \<Rightarrow> Inl e
            | Inr f \<Rightarrow> Inr (name f))
      else Inr ''<unknown>'')"

definition fileIsRel2Home :: "DataModel \<Rightarrow> c_long \<Rightarrow> fault + bool" where
  "fileIsRel2Home dm fileNo =
     (if 0 \<le> sint fileNo \<and> sint fileNo < sint (fileTblSize dm)
      then (case array_read (fileTbl dm) (sint fileNo) of
              Inl e \<Rightarrow> Inl e
            | Inr f \<Rightarrow> Inr (rel2Home f))
      else Inr False)"

subsection \<open>What the header says of the two arrays\<close>

text \<open>
  Line 142: the tag array "includes entries for -2 (TagAll), and -1 (TagStart->0), size
  is numTags+2"; the destructor (lines 263-267) visits exactly the positions below
  \<^verbatim>\<open>numTags + 2\<close>, computed in \<^verbatim>\<open>int\<close>.
\<close>

definition tagList_inv :: "DataModel \<Rightarrow> bool" where
  "tagList_inv dm =
     (case tagList dm of
        None \<Rightarrow> False
      | Some arr \<Rightarrow>
          0 \<le> sint (numTags dm) \<and> sint (numTags dm) + 2 \<le> 2147483647
          \<and> int (length arr) = sint (numTags dm) + 2)"

section \<open>The heap of per-tag objects\<close>

text \<open>
  The \<^verbatim>\<open>tagData\<close> objects live on the heap: address \<open>a\<close> holds \<open>h ! a\<close>, which is
  \<open>None\<close> once the object has been deleted. \<open>heap_new h numLoc\<close> is the expression
  \<^verbatim>\<open>new tagData(numLoc)\<close>: it runs the constructor and hands out an address not used
  before. \<open>heap_get h p\<close> is \<^verbatim>\<open>*p\<close>; it faults on a pointer to no live object.
\<close>

type_synonym heap = "tagData option list"

definition heap_new :: "heap \<Rightarrow> c_long \<Rightarrow> fault + (tagData_ptr \<times> heap)" where
  "heap_new h numLoc =
     (case tagData_new numLoc of
        Inl e \<Rightarrow> Inl e
      | Inr td \<Rightarrow> Inr (Ptr (length h), h @ [Some td]))"

definition heap_get :: "heap \<Rightarrow> tagData_ptr \<Rightarrow> fault + tagData" where
  "heap_get h p =
     (case p of
        NULL \<Rightarrow> Inl NullDeref
      | Ptr a \<Rightarrow>
          if a < length h then (case h ! a of None \<Rightarrow> Inl OutOfBounds | Some td \<Rightarrow> Inr td)
          else Inl OutOfBounds)"

text \<open>\<open>live h p\<close> says that \<open>p\<close> is the address of an object that exists in \<open>h\<close>.\<close>

definition live :: "heap \<Rightarrow> tagData_ptr \<Rightarrow> bool" where
  "live h p = (case p of NULL \<Rightarrow> False | Ptr a \<Rightarrow> a < length h \<and> h ! a \<noteq> None)"

section \<open>Loading\<close>

text \<open>
  Modelled from the spec: \<^verbatim>\<open>DataModel::LoadData\<close> and \<^verbatim>\<open>DataModel::LoadFile\<close>. The header
  declares them (lines 155 and 282); their bodies are in \<^verbatim>\<open>DataModel.cxx\<close>, which is not
  among the sources. What follows is written from sections 3, 4.1, 4.2, 5 and 7 of the spec.

  A trace file names the number of locales of the run and holds one record per line; a
  line is \<open>None\<close> when the external decoder rejects it.
\<close>

datatype load_error = MissingFile | InconsistentLocaleCount | MalformedRecord | UnknownTagReference

record trace_file =
  tf_numLocales :: nat
  tf_records :: "Event option list"

text \<open>
  Modelled from the spec: reading the file of one locale (section 4.2 and the last
  scenario of section 8). The file must exist, agree on the locale count, decode line by
  line and mention no locale outside the run; the result is its event list ordered by
  sequence number.
\<close>

definition decode_file :: "nat \<Rightarrow> trace_file option \<Rightarrow> load_error + Event list" where
  "decode_file n file =
     (case file of
        None \<Rightarrow> Inl MissingFile
      | Some f \<Rightarrow>
          if tf_numLocales f \<noteq> n then Inl InconsistentLocaleCount
          else if None \<in> set (tf_records f) then Inl MalformedRecord
          else if list_ex (\<lambda>e. n \<le> locale_id e) (map the (tf_records f))
            then Inl InconsistentLocaleCount
          else Inr (sort_key seq_no (map the (tf_records f))))"

text \<open>
  Modelled from the spec: "any of these aborts the entire load" (section 7). The first
  error among the files is the result; without one, the decoded lists in file order.
\<close>

fun collect :: "(load_error + 'a) list \<Rightarrow> load_error + 'a list" where
  "collect [] = Inr []"
| "collect (Inl e # rs) = Inl e"
| "collect (Inr x # rs) = (case collect rs of Inl e \<Rightarrow> Inl e | Inr xs \<Rightarrow> Inr (x # xs))"

text \<open>
  Modelled from the spec: the files \<^verbatim>\<open><base>-<N>\<close> for \<open>N\<close> from \<open>0\<close> to \<open>n - 1\<close>, with
  no gaps; \<open>files N\<close> is the file of index \<open>N\<close>, if there is one.
\<close>

definition read_files :: "nat \<Rightarrow> (nat \<Rightarrow> trace_file option) \<Rightarrow> load_error + Event list list" where
  "read_files n files = collect (map (\<lambda>N. decode_file n (files N)) [0..<n])"

text \<open>
  Modelled from the spec: the Stream Merger (section 4.2) produces "one global list
  ordered primarily by clock time and, for equal clock times, by locale id then by local
  sequence number". The key of an event is that triple, compared lexicographically.
\<close>

definition event_key :: "Event \<Rightarrow> double \<times> nat \<times> nat" where
  "event_key e = (clock_time e, locale_id e, seq_no e)"

definition merge_events :: "Event list list \<Rightarrow> Event list" where
  "merge_events local = sort_key event_key (concat local)"

text \<open>
  Modelled from the spec: the tag array of a load (section 3): "the PerTagData array
  always has exactly numTags + 2 entries", each owning its statistics for every locale.
  \<open>new_tags k numLoc h\<close> allocates \<open>k\<close> objects with \<^verbatim>\<open>new tagData(numLoc)\<close>, the
  constructor of the header.
\<close>

fun new_tags :: "nat \<Rightarrow> c_long \<Rightarrow> heap \<Rightarrow> fault + (tagData_ptr list \<times> heap)" where
  "new_tags 0 numLoc h = Inr ([], h)"
| "new_tags (Suc k) numLoc h =
     (case heap_new h numLoc of
        Inl e \<Rightarrow> Inl e
      | Inr (p, h') \<Rightarrow>
          (case new_tags k numLoc h' of
             Inl e \<Rightarrow> Inl e
           | Inr (ps, h'') \<Rightarrow> Inr (p # ps, h'')))"

text \<open>
  Modelled from the spec: \<^verbatim>\<open>LoadData\<close>, the tag names apart. The Phase Segmenter's walk over the
  merged list is a parameter: \<open>segment evs\<close> is the number of ordinary tags it finds, or
  the error it stops with. Any failure leaves the model and the heap as they were and
  returns 0 ("a load is atomic", section 1; "returns 1 if successful, 0 if not", line
  280 of the header); a success stores the locale count, the tag count, the tag array
  and the merged events and returns 1.
\<close>

definition LoadData_spec ::
  "(Event list \<Rightarrow> load_error + nat) \<Rightarrow> nat \<Rightarrow> (nat \<Rightarrow> trace_file option)
     \<Rightarrow> DataModel \<times> heap \<Rightarrow> (DataModel \<times> heap) \<times> c_int" where
  "LoadData_spec segment n files st =
     (case read_files n files of
        Inl e \<Rightarrow> (st, 0)
      | Inr local \<Rightarrow>
          (case segment (merge_events local) of
             Inl e \<Rightarrow> (st, 0)
           | Inr k \<Rightarrow>
               (case new_tags (k + 2) (word_of_nat n) (snd st) of
                  Inl e \<Rightarrow> (st, 0)
                | Inr (ps, h') \<Rightarrow>
                    (((fst st)\<lparr>numLocales := word_of_nat n, numTags := word_of_nat k,
                               tagList := Some ps, theEvents := merge_events local\<rparr>, h'),
                     1))))"



section \<open>A small loaded model\<close>

text \<open>
  A model as a load over two locales leaves it: one ordinary tag besides the two
  sentinels, tag names that repeat (folding disabled) with two entries in the second
  array, two events and one file name.
\<close>

definition example_events :: "Event list" where
  "example_events =
     [\<lparr>clock_time = 5, locale_id = 0, seq_no = 0, kind = Start\<rparr>,
      \<lparr>clock_time = 7, locale_id = 1, seq_no = 0, kind = Tag ''compute''\<rparr>]"

definition example_model :: DataModel where
  "example_model =
     \<lparr>taskTimeline = None, mainTID = 0,
      fileTbl = Some [\<lparr>name = ''prog.chpl'', rel2Home = False\<rparr>], fileTblSize = 1,
      tagNames = replicate 64 None, numLocales = 2, numTags = 1,
      tagList = Some [Ptr 0, Ptr 1, Ptr 2],
      uniqueTags = False, name2tag = [(''compute'', 0), (''io'', 1)],
      utagList = Some [Ptr 3, Ptr 4],
      theEvents = example_events, curEvent = 0\<rparr>"

text \<open>
  Two trace files of a run on two locales, and a segmenter that opens one ordinary tag
  per \<open>Tag\<close> record of locale 0.
\<close>

definition example_files :: "nat \<Rightarrow> trace_file option" where
  "example_files N =
     (if N = 0 then
        Some \<lparr>tf_numLocales = 2,
              tf_records =
                [Some \<lparr>clock_time = 5, locale_id = 0, seq_no = 0, kind = Start\<rparr>,
                 Some \<lparr>clock_time = 7, locale_id = 0, seq_no = 1, kind = Tag ''compute''\<rparr>]\<rparr>
      else if N = 1 then
        Some \<lparr>tf_numLocales = 2,
              tf_records =
                [Some \<lparr>clock_time = 5, locale_id = 1, seq_no = 0, kind = Start\<rparr>,
                 Some \<lparr>clock_time = 6, locale_id = 1, seq_no = 1, kind = Tag ''compute''\<rparr>]\<rparr>
      else None)"

definition example_segment :: "Event list \<Rightarrow> load_error + nat" where
  "example_segment evs =
     Inr (length (filter (\<lambda>e. locale_id e = 0
                               \<and> (case kind e of Tag nm \<Rightarrow> True | _ \<Rightarrow> False)) evs))"

text \<open>The events of locale 0 and of locale 1 in \<open>example_files\<close>, as decoded.\<close>

definition example_local0 :: "Event list" where
  "example_local0 =
     [\<lparr>clock_time = 5, locale_id = 0, seq_no = 0, kind = Start\<rparr>,
      \<lparr>clock_time = 7, locale_id = 0, seq_no = 1, kind = Tag ''compute''\<rparr>]"

definition example_local1 :: "Event list" where
  "example_local1 =
     [\<lparr>clock_time = 5, locale_id = 1, seq_no = 0, kind = Start\<rparr>,
      \<lparr>clock_time = 6, locale_id = 1, seq_no = 1, kind = Tag ''compute''\<rparr>]"






section \<open>Facts used by several results\<close>

lemma sint_succ_c_int: "sint (i :: c_int) \<noteq> 2147483647 \<Longrightarrow> sint (i + 1) = sint i + 1"
  using sint_ge [of i] sint_lt [of i]
  by (simp add: sint_word_add signed_take_bit_int_eq_self)

lemma sint_size_c_int: "n \<le> 2147483647 \<Longrightarrow> sint (word_of_nat n :: c_int) = int n"
  by (simp add: signed_of_nat signed_take_bit_int_eq_self)


lemma getTagData_out_of_range:
  "sint tagno < sint TagALL \<or> sint (numTags dm) \<le> sint tagno \<Longrightarrow> getTagData dm tagno = Inr NULL"
  by (simp add: getTagData_def)

lemma getTagData_at:
  assumes "tagList dm = Some arr" and "int (length arr) = sint (numTags dm) + 2"
    and "sint (numTags dm) + 2 \<le> 2147483647"
    and "sint TagALL \<le> sint t" and "sint t < sint (numTags dm)"
  shows "getTagData dm t = Inr (arr ! nat (sint t + 2))" and "nat (sint t + 2) < length arr"
  using assms by (auto simp: getTagData_def TagALL_def array_read_def)

lemma getTagData_no_fault:
  assumes "tagList dm = Some arr" and "int (length arr) = sint (numTags dm) + 2"
    and "sint (numTags dm) + 2 \<le> 2147483647"
  shows "\<exists>p. getTagData dm t = Inr p"
  using assms by (auto simp: getTagData_def TagALL_def array_read_def)

section \<open>Tag lookup by logical index\<close>

text \<open>
  C1. \<^verbatim>\<open>getTagData\<close> answers \<^verbatim>\<open>NULL\<close> for every \<^verbatim>\<open>int\<close> below \<^verbatim>\<open>TagALL\<close> (-2) or at or
  above \<^verbatim>\<open>numTags\<close>, whatever the state of the model; for any other id the one read it
  makes is at position \<^verbatim>\<open>tagno + 2\<close>, which is at least 0 and below \<^verbatim>\<open>numTags + 2\<close>.
  On a model whose tag array has its \<^verbatim>\<open>numTags + 2\<close> entries it returns a pointer for
  every \<^verbatim>\<open>int\<close> (no null dereference, no read outside the array, no overflow of the
  index), and for \<^verbatim>\<open>TagALL <= tagno < numTags\<close> that pointer is the entry stored at
  position \<^verbatim>\<open>tagno + 2\<close>, which lies inside the array.
\<close>

theorem getTagData_range_checked:
  "(sint tagno < sint TagALL \<or> sint (numTags dm) \<le> sint tagno
      \<longrightarrow> getTagData dm tagno = Inr NULL)
   \<and> (sint TagALL \<le> sint tagno \<and> sint tagno < sint (numTags dm)
          \<and> sint tagno + 2 \<le> 2147483647
      \<longrightarrow> 0 \<le> sint tagno + 2 \<and> sint tagno + 2 < sint (numTags dm) + 2
          \<and> getTagData dm tagno = array_read (tagList dm) (sint tagno + 2))
   \<and> (tagList_inv dm \<longrightarrow>
        (\<exists>p. getTagData dm tagno = Inr p)
        \<and> (sint TagALL \<le> sint tagno \<and> sint tagno < sint (numTags dm)
             \<longrightarrow> (\<exists>arr. tagList dm = Some arr \<and> nat (sint tagno + 2) < length arr
                    \<and> getTagData dm tagno = Inr (arr ! nat (sint tagno + 2)))))"
proof (intro conjI impI)
  assume "sint tagno < sint TagALL \<or> sint (numTags dm) \<le> sint tagno"
  then show "getTagData dm tagno = Inr NULL"
    by (rule getTagData_out_of_range)
next
  assume rng: "sint TagALL \<le> sint tagno \<and> sint tagno < sint (numTags dm)
          \<and> sint tagno + 2 \<le> 2147483647"
  then show "0 \<le> sint tagno + 2" and "sint tagno + 2 < sint (numTags dm) + 2"
    by (simp_all add: TagALL_def)
  from rng show "getTagData dm tagno = array_read (tagList dm) (sint tagno + 2)"
    by (simp add: getTagData_def TagALL_def)
next
  assume inv: "tagList_inv dm"
  then obtain arr where arr: "tagList dm = Some arr"
    and nmax: "sint (numTags dm) + 2 \<le> 2147483647"
    and len: "int (length arr) = sint (numTags dm) + 2"
    by (auto simp: tagList_inv_def split: option.splits)
  show "\<exists>p. getTagData dm tagno = Inr p"
    using arr len nmax by (rule getTagData_no_fault)
  {
    assume "sint TagALL \<le> sint tagno \<and> sint tagno < sint (numTags dm)"
    then show "\<exists>arr. tagList dm = Some arr \<and> nat (sint tagno + 2) < length arr
                 \<and> getTagData dm tagno = Inr (arr ! nat (sint tagno + 2))"
      using arr getTagData_at [OF arr len nmax, of tagno] by simp
  }
qed

theorem getTagData_range_checked_witness:
  "tagList_inv example_model
   \<and> sint TagALL \<le> sint (0 :: c_int) \<and> sint (0 :: c_int) < sint (numTags example_model)
   \<and> getTagData example_model 0 = Inr (Ptr 2)
   \<and> sint (numTags example_model) \<le> sint (1 :: c_int)
   \<and> getTagData example_model 1 = Inr NULL"
proof -
  have inv: "tagList_inv example_model"
    by (simp add: tagList_inv_def example_model_def)
  have rng: "sint TagALL \<le> sint (0 :: c_int) \<and> sint (0 :: c_int) < sint (numTags example_model)"
    by (simp add: TagALL_def example_model_def)
  have out: "sint (numTags example_model) \<le> sint (1 :: c_int)"
    by (simp add: example_model_def)
  from getTagData_range_checked [of 0 example_model] inv rng
  obtain arr where arr: "tagList example_model = Some arr"
    and res: "getTagData example_model 0 = Inr (arr ! nat (sint (0 :: c_int) + 2))"
    by blast
  from arr have "arr = [Ptr 0, Ptr 1, Ptr 2]"
    by (simp add: example_model_def)
  with res have in_range: "getTagData example_model 0 = Inr (Ptr 2)"
    by simp
  from getTagData_range_checked [of 1 example_model] out
  have "getTagData example_model 1 = Inr NULL"
    by blast
  with inv rng out in_range show ?thesis
    by simp
qed

text \<open>
  C10. For the two sentinel ids \<^verbatim>\<open>getUTagData\<close> is the plain read of the tag array at
  position 0 (\<^verbatim>\<open>TagALL\<close>) and 1 (\<^verbatim>\<open>TagStart\<close>), in every state of the model: the
  result does not change when \<^verbatim>\<open>uniqueTags\<close>, \<^verbatim>\<open>name2tag\<close> and \<^verbatim>\<open>utagList\<close> are replaced
  by anything else, and where the tag array has those two positions the results are
  its entries 0 and 1.
\<close>

theorem getUTagData_sentinels:
  "getUTagData dm TagALL = array_read (tagList dm) 0
   \<and> getUTagData dm TagStart = array_read (tagList dm) 1
   \<and> getUTagData (dm\<lparr>uniqueTags := u, name2tag := m, utagList := ul\<rparr>) TagALL
       = getUTagData dm TagALL
   \<and> getUTagData (dm\<lparr>uniqueTags := u, name2tag := m, utagList := ul\<rparr>) TagStart
       = getUTagData dm TagStart
   \<and> (tagList dm = Some arr \<and> 2 \<le> length arr
        \<longrightarrow> getUTagData dm TagALL = Inr (arr ! 0) \<and> getUTagData dm TagStart = Inr (arr ! 1))"
  by (auto simp: getUTagData_def TagALL_def TagStart_def array_read_def)

theorem getUTagData_sentinels_witness:
  "tagList example_model = Some [Ptr 0, Ptr 1, Ptr 2]
   \<and> 2 \<le> length [Ptr 0, Ptr 1, Ptr 2]
   \<and> uniqueTags example_model = False
   \<and> getUTagData example_model TagALL = Inr (Ptr 0)
   \<and> getUTagData example_model TagStart = Inr (Ptr 1)
   \<and> getUTagData (example_model\<lparr>uniqueTags := True, name2tag := [], utagList := None\<rparr>) TagALL
       = Inr (Ptr 0)"
proof -
  have arr: "tagList example_model = Some [Ptr 0, Ptr 1, Ptr 2]"
    and len: "2 \<le> length [Ptr 0, Ptr 1, Ptr 2]"
    and folding: "uniqueTags example_model = False"
    by (simp_all add: example_model_def)
  note inst = getUTagData_sentinels [where dm = example_model and u = True and m = "[]"
      and ul = None and arr = "[Ptr 0, Ptr 1, Ptr 2]"]
  from inst arr len have "getUTagData example_model TagALL = Inr ([Ptr 0, Ptr 1, Ptr 2] ! 0)"
    and "getUTagData example_model TagStart = Inr ([Ptr 0, Ptr 1, Ptr 2] ! 1)"
    by blast+
  moreover from inst
  have "getUTagData (example_model\<lparr>uniqueTags := True, name2tag := [], utagList := None\<rparr>) TagALL
          = getUTagData example_model TagALL"
    by blast
  ultimately show ?thesis using arr len folding by simp
qed

section \<open>The never-loaded model\<close>

text \<open>
  C2. A \<^verbatim>\<open>DataModel\<close> that has only been constructed has \<^verbatim>\<open>numTags = 0\<close> and a null
  \<^verbatim>\<open>tagList\<close>. The range check of \<^verbatim>\<open>getTagData\<close> lets the two sentinel ids through, so
  the lookup reads through the null pointer instead of answering \<^verbatim>\<open>NULL\<close>; the
  same holds for \<^verbatim>\<open>getUTagData\<close>, and \<^verbatim>\<open>start_clock\<close> dereferences the end of the empty
  event list. Every other id is answered with \<^verbatim>\<open>NULL\<close>.
\<close>

theorem never_loaded_sentinel_lookup:
  "getTagData (DataModel_new storage) TagALL = Inl NullDeref
   \<and> getTagData (DataModel_new storage) TagStart = Inl NullDeref
   \<and> getUTagData (DataModel_new storage) TagALL = Inl NullDeref
   \<and> getUTagData (DataModel_new storage) TagStart = Inl NullDeref
   \<and> start_clock (DataModel_new storage) = Inl EndIterator
   \<and> getTagData (DataModel_new storage) 0 = Inr NULL"
  by (simp add: getTagData_def getUTagData_def start_clock_def DataModel_new_def TagALL_def
      TagStart_def array_read_def)

section \<open>Start time and file names\<close>

text \<open>
  C8. When the event list of the model is not empty, \<^verbatim>\<open>start_clock\<close> returns the clock
  time of its first event, without a fault.
\<close>

theorem start_clock_first_event:
  "theEvents dm \<noteq> [] \<Longrightarrow> start_clock dm = Inr (clock_time (hd (theEvents dm)))"
  by (cases "theEvents dm") (simp_all add: start_clock_def)

theorem start_clock_first_event_witness:
  "theEvents example_model \<noteq> [] \<and> start_clock example_model = Inr 5"
proof -
  have ne: "theEvents example_model \<noteq> []"
    by (simp add: example_model_def example_events_def)
  from start_clock_first_event [OF ne] have "start_clock example_model = Inr 5"
    by (simp add: example_model_def example_events_def)
  with ne show ?thesis
    by simp
qed

text \<open>
  C9. For every \<^verbatim>\<open>long\<close> \<open>fileNo\<close>: outside \<^verbatim>\<open>0 <= fileNo < fileTblSize\<close> \<^verbatim>\<open>fileName\<close>
  returns the string \<^verbatim>\<open><unknown>\<close> (and \<^verbatim>\<open>fileIsRel2Home\<close> false) without touching the
  table, in every state of the model; inside that range, with a table of at least
  \<^verbatim>\<open>fileTblSize\<close> entries, it returns the name stored at position \<open>fileNo\<close> (and
  \<^verbatim>\<open>fileIsRel2Home\<close> the flag stored there).
\<close>

theorem fileName_resolves:
  "(sint fileNo < 0 \<or> sint (fileTblSize dm) \<le> sint fileNo
      \<longrightarrow> fileName dm fileNo = Inr ''<unknown>'' \<and> fileIsRel2Home dm fileNo = Inr False)
   \<and> (0 \<le> sint fileNo \<and> sint fileNo < sint (fileTblSize dm)
        \<and> fileTbl dm = Some tbl \<and> sint (fileTblSize dm) \<le> int (length tbl)
      \<longrightarrow> fileName dm fileNo = Inr (name (tbl ! nat (sint fileNo)))
          \<and> fileIsRel2Home dm fileNo = Inr (rel2Home (tbl ! nat (sint fileNo))))"
  by (auto simp: fileName_def fileIsRel2Home_def array_read_def)

theorem fileName_resolves_witness:
  "sint (fileTblSize example_model) \<le> sint (1 :: c_long)
   \<and> fileName example_model 1 = Inr ''<unknown>''
   \<and> sint (- 1 :: c_long) < 0
   \<and> fileName example_model (- 1) = Inr ''<unknown>''
   \<and> 0 \<le> sint (0 :: c_long) \<and> sint (0 :: c_long) < sint (fileTblSize example_model)
   \<and> fileName example_model 0 = Inr ''prog.chpl''"
proof -
  let ?tbl = "[\<lparr>name = ''prog.chpl'', rel2Home = False\<rparr>]"
  have above: "sint (fileTblSize example_model) \<le> sint (1 :: c_long)"
    and below: "sint (- 1 :: c_long) < 0"
    and inside: "0 \<le> sint (0 :: c_long) \<and> sint (0 :: c_long) < sint (fileTblSize example_model)"
    and tbl: "fileTbl example_model = Some ?tbl
                \<and> sint (fileTblSize example_model) \<le> int (length ?tbl)"
    by (simp_all add: example_model_def)
  from fileName_resolves [where dm = example_model and fileNo = 1] above
  have r1: "fileName example_model 1 = Inr ''<unknown>''"
    by blast
  from fileName_resolves [where dm = example_model and fileNo = "- 1"] below
  have r2: "fileName example_model (- 1) = Inr ''<unknown>''"
    by blast
  from fileName_resolves [where dm = example_model and fileNo = 0 and tbl = ?tbl] inside tbl
  have "fileName example_model 0 = Inr (name (?tbl ! nat (sint (0 :: c_long))))"
    by blast
  then have r3: "fileName example_model 0 = Inr ''prog.chpl''"
    by simp
  from above below inside r1 r2 r3 show ?thesis
    by simp
qed

section \<open>The communication matrix of a new tag entry\<close>

lemma comms_loop_fills:
  assumes "sint n \<le> 2147483647" and "0 \<le> sint i" and "sint i \<le> sint n"
    and "length cs = nat (sint n)"
  shows "\<exists>cs'. comms_loop n i cs = Inr cs' \<and> length cs' = length cs
           \<and> (\<forall>j < nat (sint i). cs' ! j = cs ! j)
           \<and> (\<forall>j. nat (sint i) \<le> j \<and> j < nat (sint n)
                 \<longrightarrow> cs' ! j = Some (replicate (nat (sint n)) commData_new))"
  using assms
proof (induction n i cs rule: comms_loop.induct)
  case (1 n i cs)
  show ?case
  proof (cases "sint i < sint n")
    case False
    with "1.prems" have "sint i = sint n"
      by simp
    moreover from False have "comms_loop n i cs = Inr cs"
      by (simp add: comms_loop.simps [of n i cs])
    ultimately show ?thesis
      by auto
  next
    case True
    let ?row = "replicate (nat (sint n)) commData_new"
    let ?cs = "cs[nat (sint i) := Some ?row]"
    from True "1.prems" have row: "new_array n commData_new = Inr ?row"
      by (simp add: new_array_def)
    from True "1.prems" have wr: "array_write cs (sint i) (Some ?row) = Inr ?cs"
      by (simp add: array_write_def)
    from True "1.prems" have ne: "sint i \<noteq> 2147483647"
      by simp
    then have succ: "sint (i + 1) = sint i + 1"
      by (rule sint_succ_c_int)
    have unfold: "comms_loop n i cs = comms_loop n (i + 1) ?cs"
      using True row wr ne by (simp add: comms_loop.simps [of n i cs])
    from "1.IH" [OF True row wr ne] "1.prems" True succ
    obtain cs' where run: "comms_loop n (i + 1) ?cs = Inr cs'"
      and len: "length cs' = length ?cs"
      and below: "\<forall>j < nat (sint i + 1). cs' ! j = ?cs ! j"
      and above: "\<forall>j. nat (sint i + 1) \<le> j \<and> j < nat (sint n) \<longrightarrow> cs' ! j = Some ?row"
      by auto
    have "\<forall>j < nat (sint i). cs' ! j = cs ! j"
      using below "1.prems" by (auto simp: nat_add_distrib)
    moreover have "\<forall>j. nat (sint i) \<le> j \<and> j < nat (sint n) \<longrightarrow> cs' ! j = Some ?row"
    proof (intro allI impI)
      fix j
      assume j: "nat (sint i) \<le> j \<and> j < nat (sint n)"
      show "cs' ! j = Some ?row"
      proof (cases "j = nat (sint i)")
        case True
        with below "1.prems" j have "cs' ! j = ?cs ! j"
          by (auto simp: nat_add_distrib)
        with True j "1.prems" show ?thesis
          by simp
      next
        case False
        with j "1.prems" have "nat (sint i + 1) \<le> j"
          by (simp add: nat_add_distrib)
        with above j show ?thesis
          by blast
      qed
    qed
    ultimately show ?thesis
      using unfold run len by simp
  qed
qed

text \<open>
  C7. For a locale count \<open>n\<close> with \<open>0 \<le> n \<le> 2^31 - 1\<close> (the count is an \<^verbatim>\<open>int\<close> in
  \<^verbatim>\<open>DataModel\<close>), the constructor \<^verbatim>\<open>tagData(n)\<close> returns an object whose \<open>comms\<close> has
  \<open>n\<close> rows, every row assigned and of \<open>n\<close> cells, \<open>n * n\<close> cells in all, and in every
  cell the five counters are 0.
\<close>

theorem tagData_new_matrix:
  assumes "0 \<le> sint numLoc" and "sint numLoc \<le> 2147483647"
  shows "\<exists>td. tagData_new numLoc = Inr td
           \<and> td_numLocales td = numLoc
           \<and> length (comms td) = nat (sint numLoc)
           \<and> (\<forall>i < nat (sint numLoc). \<exists>row. comms td ! i = Some row
                 \<and> length row = nat (sint numLoc)
                 \<and> (\<forall>j < nat (sint numLoc).
                       numComms (row ! j) = 0 \<and> numGets (row ! j) = 0 \<and> numPuts (row ! j) = 0
                       \<and> numForks (row ! j) = 0 \<and> commSize (row ! j) = 0))
           \<and> length (concat (map the (comms td))) = nat (sint numLoc) * nat (sint numLoc)"
proof -
  let ?n = "nat (sint numLoc)"
  let ?row = "replicate ?n commData_new"
  have "sint (0 :: c_int) = 0"
    by simp
  with assms comms_loop_fills [of numLoc 0 "replicate ?n None"]
  obtain cs where run: "comms_loop numLoc 0 (replicate ?n None) = Inr cs"
    and len: "length cs = ?n"
    and rows: "\<forall>j. j < ?n \<longrightarrow> cs ! j = Some ?row"
    by auto
  from len rows have all: "cs = replicate ?n (Some ?row)"
    by (simp add: list_eq_iff_nth_eq)
  have cells: "length (concat (map the cs)) = ?n * ?n"
    unfolding all by (simp add: map_replicate_const length_concat sum_list_replicate)
  let ?td = "\<lparr>td_numLocales = numLoc, td_name = '''', locales = replicate ?n localeData_new,
                comms = cs, maxCpu = 0, maxClock = 0, maxTasks = 0, td_maxConc = 0,
                maxComms = 0, maxSize = 0\<rparr>"
  from assms run have "tagData_new numLoc = Inr ?td"
    by (simp add: tagData_new_def new_array_def)
  moreover have "\<forall>i < ?n. \<exists>row. cs ! i = Some row \<and> length row = ?n
                 \<and> (\<forall>j < ?n.
                       numComms (row ! j) = 0 \<and> numGets (row ! j) = 0 \<and> numPuts (row ! j) = 0
                       \<and> numForks (row ! j) = 0 \<and> commSize (row ! j) = 0)"
    using rows by (simp add: commData_new_def)
  ultimately show ?thesis
    using len cells by simp
qed

theorem tagData_new_matrix_witness:
  "0 \<le> sint (2 :: c_long) \<and> sint (2 :: c_long) \<le> 2147483647
   \<and> (\<exists>td. tagData_new 2 = Inr td \<and> length (comms td) = 2
          \<and> (\<exists>row. comms td ! 1 = Some row \<and> length row = 2 \<and> commSize (row ! 0) = 0)
          \<and> length (concat (map the (comms td))) = 4)"
proof -
  have lo: "0 \<le> sint (2 :: c_long)" and hi: "sint (2 :: c_long) \<le> 2147483647"
    by simp_all
  have n: "nat (sint (2 :: c_long)) = 2"
    by simp
  from tagData_new_matrix [OF lo hi]
  obtain td where td: "tagData_new 2 = Inr td"
    and len: "length (comms td) = 2"
    and rows: "\<forall>i < 2. \<exists>row. comms td ! i = Some row \<and> length row = 2
                 \<and> (\<forall>j < 2. numComms (row ! j) = 0 \<and> numGets (row ! j) = 0
                       \<and> numPuts (row ! j) = 0 \<and> numForks (row ! j) = 0
                       \<and> commSize (row ! j) = 0)"
    and cells: "length (concat (map the (comms td))) = 2 * 2"
    unfolding n by blast
  from rows [rule_format, of 1]
  obtain row where row: "comms td ! 1 = Some row" "length row = 2"
    and zero: "\<forall>j < 2. numComms (row ! j) = 0 \<and> numGets (row ! j) = 0
                       \<and> numPuts (row ! j) = 0 \<and> numForks (row ! j) = 0
                       \<and> commSize (row ! j) = 0"
    by auto
  from zero [rule_format, of 0] have "commSize (row ! 0) = 0"
    by simp
  with row have "\<exists>row. comms td ! 1 = Some row \<and> length row = 2 \<and> commSize (row ! 0) = 0"
    by blast
  with td len cells lo hi show ?thesis
    by auto
qed

section \<open>The tag array after a load\<close>

lemma new_tags_result:
  "new_tags k numLoc h = Inr (ps, h') \<Longrightarrow>
     ps = map Ptr [length h ..< length h + k]
     \<and> (\<exists>td. (0 < k \<longrightarrow> tagData_new numLoc = Inr td) \<and> h' = h @ replicate k (Some td))"
proof (induction k arbitrary: h ps h')
  case 0
  then show ?case
    by simp
next
  case (Suc k)
  from Suc.prems obtain td qs where td: "tagData_new numLoc = Inr td"
    and rest: "new_tags k numLoc (h @ [Some td]) = Inr (qs, h')"
    and ps: "ps = Ptr (length h) # qs"
    by (auto simp: heap_new_def split: sum.splits prod.splits)
  from Suc.IH [OF rest] obtain td' where qs: "qs = map Ptr [length h + 1 ..< length h + 1 + k]"
    and td': "0 < k \<longrightarrow> tagData_new numLoc = Inr td'"
    and h': "h' = (h @ [Some td]) @ replicate k (Some td')"
    by auto
  have "ps = map Ptr [length h ..< length h + Suc k]"
    using ps qs by (simp add: upt_conv_Cons)
  moreover have "h' = h @ replicate (Suc k) (Some td)"
    using h' td' td by (cases k) (auto simp: replicate_append_same)
  ultimately show ?case
    using td by auto
qed

lemma new_tags_succeeds:
  assumes "tagData_new numLoc = Inr td"
  shows "\<exists>ps h'. new_tags k numLoc h = Inr (ps, h')"
proof (induction k arbitrary: h)
  case 0
  show ?case
    by simp
next
  case (Suc k)
  from Suc.IH [of "h @ [Some td]"]
  obtain ps h' where "new_tags k numLoc (h @ [Some td]) = Inr (ps, h')"
    by blast
  with assms show ?case
    by (simp add: heap_new_def)
qed

lemma tagData_new_numLocales: "tagData_new numLoc = Inr td \<Longrightarrow> td_numLocales td = numLoc"
  by (auto simp: tagData_new_def split: sum.splits)

text \<open>
  C5. After a load that returns 1 the tag array has \<open>k + 2\<close> entries, where \<open>k\<close> is the
  number of ordinary tags the load stored in \<^verbatim>\<open>numTags\<close>. The entries are distinct, none
  is null, each is an object that did not exist before the load and that was constructed
  for the locale count of the run. When \<open>k + 2\<close> is an \<^verbatim>\<open>int\<close>, the length is
  \<^verbatim>\<open>NumTags() + 2\<close>, and \<^verbatim>\<open>getTagData\<close> returns entry \<open>t + 2\<close> for every
  \<^verbatim>\<open>TagALL <= t < numTags\<close>: entry 0 for \<^verbatim>\<open>TagALL\<close> and entry 1 for \<^verbatim>\<open>TagStart\<close>.
\<close>

theorem LoadData_spec_tag_array:
  assumes "LoadData_spec segment n files (dm, h) = ((dm', h'), 1)"
  shows "\<exists>k arr. segment (theEvents dm') = Inr k
           \<and> NumLocales dm' = word_of_nat n \<and> NumTags dm' = word_of_nat k
           \<and> tagList dm' = Some arr \<and> length arr = k + 2
           \<and> distinct arr
           \<and> (\<forall>p \<in> set arr. p \<noteq> NULL \<and> \<not> live h p
                  \<and> (\<exists>td. heap_get h' p = Inr td \<and> td_numLocales td = word_of_nat n))
           \<and> (k + 2 \<le> 2147483647 \<longrightarrow>
                 int (length arr) = sint (NumTags dm') + 2
                 \<and> tagList_inv dm'
                 \<and> getTagData dm' TagALL = Inr (arr ! 0)
                 \<and> getTagData dm' TagStart = Inr (arr ! 1)
                 \<and> (\<forall>t. sint TagALL \<le> sint t \<and> sint t < sint (NumTags dm')
                        \<longrightarrow> getTagData dm' t = Inr (arr ! nat (sint t + 2))))"
proof -
  from assms obtain local k arr where seg: "segment (merge_events local) = Inr k"
    and alloc: "new_tags (k + 2) (word_of_nat n) h = Inr (arr, h')"
    and dm': "dm' = dm\<lparr>numLocales := word_of_nat n, numTags := word_of_nat k,
                       tagList := Some arr, theEvents := merge_events local\<rparr>"
    by (auto simp: LoadData_spec_def split: sum.splits prod.splits)
  from new_tags_result [OF alloc] obtain td
    where arr: "arr = map Ptr [length h ..< length h + (k + 2)]"
      and td: "tagData_new (word_of_nat n) = Inr td"
      and h': "h' = h @ replicate (k + 2) (Some td)"
    by auto
  from arr have len: "length arr = k + 2" and dist: "distinct arr"
    by (auto simp: distinct_map inj_on_def)
  have objs: "\<forall>p \<in> set arr. p \<noteq> NULL \<and> \<not> live h p
                  \<and> (\<exists>td. heap_get h' p = Inr td \<and> td_numLocales td = word_of_nat n)"
  proof
    fix p
    assume "p \<in> set arr"
    with arr obtain a where p: "p = Ptr a" and lo: "length h \<le> a" and hi: "a < length h + (k + 2)"
      by auto
    from lo hi have "a - length h < k + 2"
      by simp
    then have "replicate (k + 2) (Some td) ! (a - length h) = Some td"
      by (rule nth_replicate)
    with lo have "h' ! a = Some td"
      unfolding h' by (simp only: nth_append_right)
    moreover from hi have "a < length h'"
      unfolding h' by (simp only: length_append length_replicate)
    ultimately have "heap_get h' p = Inr td"
      by (simp add: heap_get_def p)
    with p lo tagData_new_numLocales [OF td]
    show "p \<noteq> NULL \<and> \<not> live h p
            \<and> (\<exists>td. heap_get h' p = Inr td \<and> td_numLocales td = word_of_nat n)"
      by (simp add: live_def)
  qed
  have tail: "k + 2 \<le> 2147483647 \<longrightarrow>
                 int (length arr) = sint (NumTags dm') + 2
                 \<and> tagList_inv dm'
                 \<and> getTagData dm' TagALL = Inr (arr ! 0)
                 \<and> getTagData dm' TagStart = Inr (arr ! 1)
                 \<and> (\<forall>t. sint TagALL \<le> sint t \<and> sint t < sint (NumTags dm')
                        \<longrightarrow> getTagData dm' t = Inr (arr ! nat (sint t + 2)))"
  proof
    assume small: "k + 2 \<le> 2147483647"
    then have nt: "sint (numTags dm') = int k"
      using dm' by (simp add: sint_size_c_int)
    have tl: "tagList dm' = Some arr"
      using dm' by simp
    have l2: "int (length arr) = sint (numTags dm') + 2"
      using len nt by simp
    have mx: "sint (numTags dm') + 2 \<le> 2147483647"
      using nt small by simp
    have inv: "tagList_inv dm'"
      using tl l2 mx nt by (simp add: tagList_inv_def)
    note at = getTagData_at(1) [OF tl l2 mx]
    have "getTagData dm' TagALL = Inr (arr ! nat (sint TagALL + 2))"
      using nt by (intro at) (simp_all add: TagALL_def)
    then have a0: "getTagData dm' TagALL = Inr (arr ! 0)"
      by (simp add: TagALL_def)
    have "getTagData dm' TagStart = Inr (arr ! nat (sint TagStart + 2))"
      using nt by (intro at) (simp_all add: TagALL_def TagStart_def)
    then have a1: "getTagData dm' TagStart = Inr (arr ! 1)"
      by (simp add: TagStart_def)
    from l2 inv a0 a1 at
    show "int (length arr) = sint (NumTags dm') + 2
                 \<and> tagList_inv dm'
                 \<and> getTagData dm' TagALL = Inr (arr ! 0)
                 \<and> getTagData dm' TagStart = Inr (arr ! 1)
                 \<and> (\<forall>t. sint TagALL \<le> sint t \<and> sint t < sint (NumTags dm')
                        \<longrightarrow> getTagData dm' t = Inr (arr ! nat (sint t + 2)))"
      unfolding NumTags_def by blast
  qed
  from seg dm' have "segment (theEvents dm') = Inr k"
    by simp
  moreover from dm' have "NumLocales dm' = word_of_nat n" "NumTags dm' = word_of_nat k"
    and "tagList dm' = Some arr"
    by (simp_all add: NumLocales_def NumTags_def)
  ultimately show ?thesis
    using len dist objs tail by blast
qed

theorem LoadData_spec_tag_array_witness:
  "snd (LoadData_spec example_segment 2 example_files (DataModel_new example_model, [])) = 1
   \<and> (\<exists>arr. tagList (fst (fst (LoadData_spec example_segment 2 example_files
                                   (DataModel_new example_model, [])))) = Some arr
          \<and> length arr = 3
          \<and> NumTags (fst (fst (LoadData_spec example_segment 2 example_files
                                   (DataModel_new example_model, [])))) = 1
          \<and> getTagData (fst (fst (LoadData_spec example_segment 2 example_files
                                   (DataModel_new example_model, [])))) 0 = Inr (arr ! 2))"
proof -
  let ?dm = "DataModel_new example_model"
  define r where "r = LoadData_spec example_segment 2 example_files (?dm, [])"
  have rd: "read_files 2 example_files = Inr [example_local0, example_local1]"
    by (simp add: read_files_def decode_file_def example_files_def example_local0_def
        example_local1_def upt_conv_Cons numeral_2_eq_2)
  have sg: "example_segment (merge_events [example_local0, example_local1]) = Inr 1"
    by (simp add: example_segment_def merge_events_def example_local0_def example_local1_def
        event_key_def less_eq_prod_def)
  have "\<exists>td. tagData_new (word_of_nat 2) = Inr td"
    by (simp add: tagData_new_def new_array_def comms_loop.simps array_write_def)
  then obtain ps h' where alloc: "new_tags (1 + 2) (word_of_nat 2) [] = Inr (ps, h')"
    using new_tags_succeeds by blast
  have run: "r = ((?dm\<lparr>numLocales := word_of_nat 2, numTags := word_of_nat 1,
                    tagList := Some ps,
                    theEvents := merge_events [example_local0, example_local1]\<rparr>, h'), 1)"
    unfolding r_def LoadData_spec_def
    by (simp only: rd sg alloc sum.case prod.case fst_conv snd_conv)
  then have ok: "snd r = 1"
    by simp
  from run have "LoadData_spec example_segment 2 example_files (?dm, [])
                   = ((fst (fst r), snd (fst r)), 1)"
    unfolding r_def by simp
  from LoadData_spec_tag_array [OF this]
  obtain k arr where k: "example_segment (theEvents (fst (fst r))) = Inr k"
    and nt: "NumTags (fst (fst r)) = word_of_nat k"
    and arr: "tagList (fst (fst r)) = Some arr" "length arr = k + 2"
    and acc: "k + 2 \<le> 2147483647 \<longrightarrow>
                (\<forall>t. sint TagALL \<le> sint t \<and> sint t < sint (NumTags (fst (fst r)))
                        \<longrightarrow> getTagData (fst (fst r)) t = Inr (arr ! nat (sint t + 2)))"
    by blast
  from run have "theEvents (fst (fst r)) = merge_events [example_local0, example_local1]"
    by simp
  with k sg have k1: "k = 1"
    by simp
  with nt acc have "getTagData (fst (fst r)) 0 = Inr (arr ! 2)"
    by (simp add: TagALL_def)
  with ok arr nt k1 show ?thesis
    unfolding r_def by simp
qed

section \<open>Tag names and the second array\<close>














end
